theory Spec2Isabelle
  imports Complex_Main "HOL-Library.Multiset"
begin

section \<open>Data model\<close>

text \<open>
  The engine of \<^verbatim>\<open>src/engine/engine.js\<close> works on a position object of the rules
  library (chess.js). Piece types are the six keys of \<^verbatim>\<open>MATERIAL\<close> and \<^verbatim>\<open>PST\<close>,
  colours are the strings "w" and "b".
\<close>

datatype piece_type = Pawn | Knight | Bishop | Rook | Queen | King

datatype color = White | Black

text \<open>A square of \<^verbatim>\<open>game.board()\<close>: \<^verbatim>\<open>{ type, color }\<close>.\<close>

record piece =
  kind :: piece_type
  side :: color

text \<open>
  A verbose move of the rules library. \<^verbatim>\<open>captured\<close> and \<^verbatim>\<open>promotion\<close> are optional;
  \<^verbatim>\<open>orderMovesSafe\<close> also guards \<^verbatim>\<open>mv.piece\<close>, so that field is optional here too.
\<close>

record move =
  from_sq :: string
  to_sq :: string
  piece :: "piece_type option"
  captured :: "piece_type option"
  promotion :: "piece_type option"
  san :: string

text \<open>
  Scores are JavaScript numbers. Every value the evaluator produces is an integer far
  below \<open>2^53\<close>, so the finite scores are modelled by \<open>int\<close>; the search also uses
  \<^verbatim>\<open>-Infinity\<close> and \<^verbatim>\<open>Infinity\<close>.
\<close>

datatype score = NegInf | Fin int | PosInf

fun score_lt :: "score \<Rightarrow> score \<Rightarrow> bool" where
  "score_lt (Fin a) (Fin b) = (a < b)"
| "score_lt NegInf NegInf = False"
| "score_lt NegInf _ = True"
| "score_lt PosInf _ = False"
| "score_lt (Fin a) PosInf = True"
| "score_lt (Fin a) NegInf = False"

definition score_ge :: "score \<Rightarrow> score \<Rightarrow> bool" where
  "score_ge a b = (\<not> score_lt a b)"

text \<open>
  The rules collaborator is not part of the repository: it is a parameter of the model.
  \<open>'g\<close> is the whole state of the position object (board, side to move, history).
  Queries are functions of the state; \<^verbatim>\<open>game.move(mv)\<close> and \<^verbatim>\<open>game.undo()\<close> return the
  new state. \<^verbatim>\<open>game.moves({verbose: true})\<close> may raise or return a falsy value, which is
  \<open>None\<close>. The two repetition predicates are present or absent, as \<^verbatim>\<open>isThreefold\<close>
  probes for them. \<open>board g r c\<close> is \<^verbatim>\<open>game.board()[r][c]\<close> of the 8 by 8 grid.
  The engine replays only moves it has obtained from the enumeration, so \<^verbatim>\<open>game.move\<close>
  always yields a state.
\<close>

record 'g rules =
  isCheckmate :: "'g \<Rightarrow> bool"
  isDraw :: "'g \<Rightarrow> bool"
  isGameOver :: "'g \<Rightarrow> bool"
  isThreefoldRepetition :: "('g \<Rightarrow> bool) option"
  inThreefoldRepetition :: "('g \<Rightarrow> bool) option"
  turn :: "'g \<Rightarrow> color"
  board :: "'g \<Rightarrow> nat \<Rightarrow> nat \<Rightarrow> piece option"
  moves :: "'g \<Rightarrow> move list option"
  move :: "'g \<Rightarrow> move \<Rightarrow> 'g"
  undo :: "'g \<Rightarrow> 'g"

section \<open>Constants\<close>

fun MATERIAL :: "piece_type \<Rightarrow> int" where
  "MATERIAL Pawn = 100"
| "MATERIAL Knight = 320"
| "MATERIAL Bishop = 330"
| "MATERIAL Rook = 500"
| "MATERIAL Queen = 900"
| "MATERIAL King = 20000"

definition MATE_SCORE :: int where
  "MATE_SCORE = 100000"

definition PST_P :: "int list list" where
  "PST_P =
   [[0, 0, 0, 0, 0, 0, 0, 0],
    [50, 50, 50, 50, 50, 50, 50, 50],
    [10, 10, 20, 30, 30, 20, 10, 10],
    [5, 5, 10, 25, 25, 10, 5, 5],
    [0, 0, 0, 20, 20, 0, 0, 0],
    [5, -5, -10, 0, 0, -10, -5, 5],
    [5, 10, 10, -20, -20, 10, 10, 5],
    [0, 0, 0, 0, 0, 0, 0, 0]]"

definition PST_N :: "int list list" where
  "PST_N =
   [[-50, -40, -30, -30, -30, -30, -40, -50],
    [-40, -20, 0, 5, 5, 0, -20, -40],
    [-30, 5, 10, 15, 15, 10, 5, -30],
    [-30, 0, 15, 20, 20, 15, 0, -30],
    [-30, 5, 15, 20, 20, 15, 5, -30],
    [-30, 0, 10, 15, 15, 10, 0, -30],
    [-40, -20, 0, 0, 0, 0, -20, -40],
    [-50, -40, -30, -30, -30, -30, -40, -50]]"

definition PST_B :: "int list list" where
  "PST_B =
   [[-20, -10, -10, -10, -10, -10, -10, -20],
    [-10, 0, 0, 0, 0, 0, 0, -10],
    [-10, 0, 5, 10, 10, 5, 0, -10],
    [-10, 5, 5, 10, 10, 5, 5, -10],
    [-10, 0, 10, 10, 10, 10, 0, -10],
    [-10, 10, 10, 10, 10, 10, 10, -10],
    [-10, 5, 0, 0, 0, 0, 5, -10],
    [-20, -10, -10, -10, -10, -10, -10, -20]]"

definition PST_R :: "int list list" where
  "PST_R =
   [[0, 0, 0, 0, 0, 0, 0, 0],
    [5, 10, 10, 10, 10, 10, 10, 5],
    [-5, 0, 0, 0, 0, 0, 0, -5],
    [-5, 0, 0, 0, 0, 0, 0, -5],
    [-5, 0, 0, 0, 0, 0, 0, -5],
    [-5, 0, 0, 0, 0, 0, 0, -5],
    [-5, 0, 0, 0, 0, 0, 0, -5],
    [0, 0, 0, 5, 5, 0, 0, 0]]"

definition PST_Q :: "int list list" where
  "PST_Q =
   [[-20, -10, -10, -5, -5, -10, -10, -20],
    [-10, 0, 0, 0, 0, 0, 0, -10],
    [-10, 0, 5, 5, 5, 5, 0, -10],
    [-5, 0, 5, 5, 5, 5, 0, -5],
    [0, 0, 5, 5, 5, 5, 0, -5],
    [-10, 5, 5, 5, 5, 5, 0, -10],
    [-10, 0, 5, 0, 0, 0, 0, -10],
    [-20, -10, -10, -5, -5, -10, -10, -20]]"

definition PST_K :: "int list list" where
  "PST_K =
   [[-30, -40, -40, -50, -50, -40, -40, -30],
    [-30, -40, -40, -50, -50, -40, -40, -30],
    [-30, -40, -40, -50, -50, -40, -40, -30],
    [-30, -40, -40, -50, -50, -40, -40, -30],
    [-20, -30, -30, -40, -40, -30, -30, -20],
    [-10, -20, -20, -20, -20, -20, -20, -10],
    [20, 20, 0, 0, 0, 0, 20, 20],
    [20, 30, 10, 0, 0, 10, 30, 20]]"

fun PST :: "piece_type \<Rightarrow> int list list" where
  "PST Pawn = PST_P"
| "PST Knight = PST_N"
| "PST Bishop = PST_B"
| "PST Rook = PST_R"
| "PST Queen = PST_Q"
| "PST King = PST_K"

section \<open>Helpers\<close>

text \<open>
  \<^verbatim>\<open>isThreefold\<close>: the newer method name is probed first, then the older one; with
  neither the answer is false.
\<close>

definition isThreefold :: "'g rules \<Rightarrow> 'g \<Rightarrow> bool" where
  "isThreefold R g =
     (case isThreefoldRepetition R of
        Some f \<Rightarrow> f g
      | None \<Rightarrow>
          (case inThreefoldRepetition R of
             Some f \<Rightarrow> f g
           | None \<Rightarrow> False))"

text \<open>\<^verbatim>\<open>safeMoves\<close>: a raising or falsy enumeration is the empty list.\<close>

definition safeMoves :: "'g rules \<Rightarrow> 'g \<Rightarrow> move list" where
  "safeMoves R g = (case moves R g of Some ms \<Rightarrow> ms | None \<Rightarrow> [])"

text \<open>\<^verbatim>\<open>getValue(p)\<close> = \<^verbatim>\<open>MATERIAL[p] || 0\<close>, for a piece type or a missing one.\<close>

definition getValue :: "piece_type option \<Rightarrow> int" where
  "getValue p = (case p of Some t \<Rightarrow> MATERIAL t | None \<Rightarrow> 0)"

section \<open>Static evaluation\<close>

text \<open>
  The body of the two nested loops of \<^verbatim>\<open>evaluate\<close> for the square in row \<open>r\<close> and
  column \<open>c\<close>: what is added to \<^verbatim>\<open>score\<close>. An empty square adds nothing. The table
  exists for each of the six piece types, so the guard \<^verbatim>\<open>if (table)\<close> always passes.
\<close>

definition squareScore :: "piece option \<Rightarrow> nat \<Rightarrow> nat \<Rightarrow> int" where
  "squareScore sq r c =
     (case sq of
        None \<Rightarrow> 0
      | Some p \<Rightarrow>
          (let base = MATERIAL (kind p);
               table = PST (kind p);
               pst = (if side p = White then table ! r ! c else - (table ! (7 - r) ! c))
           in if side p = White then base + pst else - (base + pst)))"

text \<open>The two nested loops over the rows and columns, adding \<open>f\<close> of each square.\<close>

definition sumSquares ::
    "(piece option \<Rightarrow> nat \<Rightarrow> nat \<Rightarrow> int) \<Rightarrow> (nat \<Rightarrow> nat \<Rightarrow> piece option) \<Rightarrow> int" where
  "sumSquares f brd =
     foldl (\<lambda>score r. foldl (\<lambda>score c. score + f (brd r c) r c) score [0..<8]) 0 [0..<8]"

definition boardScore :: "(nat \<Rightarrow> nat \<Rightarrow> piece option) \<Rightarrow> int" where
  "boardScore brd = sumSquares squareScore brd"

definition evaluate :: "'g rules \<Rightarrow> 'g \<Rightarrow> int" where
  "evaluate R g =
     (if isCheckmate R g then (if turn R g = White then - MATE_SCORE else MATE_SCORE)
      else if isDraw R g \<or> isThreefold R g then 0
      else
        (let score = boardScore (board R g);
             mobility = int (length (safeMoves R g))
         in score + (if turn R g = White then 1 else - 1) * mobility * 2))"

section \<open>Move ordering\<close>

text \<open>
  \<^verbatim>\<open>Array.prototype.sort\<close> with a comparator: the language standard requires a stable
  sort, and the comparator \<open>cmp a b\<close> is negative or zero when \<open>a\<close> may stay before \<open>b\<close>.
  It is modelled by a stable insertion sort over the comparator.
\<close>

fun insert_cmp :: "('a \<Rightarrow> 'a \<Rightarrow> int) \<Rightarrow> 'a \<Rightarrow> 'a list \<Rightarrow> 'a list" where
  "insert_cmp cmp x [] = [x]"
| "insert_cmp cmp x (y # ys) =
     (if cmp x y \<le> 0 then x # y # ys else y # insert_cmp cmp x ys)"

fun sort_cmp :: "('a \<Rightarrow> 'a \<Rightarrow> int) \<Rightarrow> 'a list \<Rightarrow> 'a list" where
  "sort_cmp cmp [] = []"
| "sort_cmp cmp (x # xs) = insert_cmp cmp x (sort_cmp cmp xs)"

text \<open>The score that \<^verbatim>\<open>orderMovesSafe\<close> attaches to a move.\<close>

definition moveScore :: "move \<Rightarrow> int" where
  "moveScore mv =
     (case captured mv of Some t \<Rightarrow> MATERIAL t * 10 | None \<Rightarrow> 0)
     - (case piece mv of Some t \<Rightarrow> MATERIAL t | None \<Rightarrow> 0)"

definition orderMovesSafe :: "move list \<Rightarrow> move list" where
  "orderMovesSafe mvs =
     map fst
       (sort_cmp (\<lambda>a b. snd b - snd a)
          (map (\<lambda>mv. (mv, moveScore mv)) mvs))"

section \<open>Search\<close>

text \<open>
  The budget object \<^verbatim>\<open>state\<close>: \<^verbatim>\<open>{ nodes, nodeLimit, endTime }\<close>. A missing
  \<^verbatim>\<open>nodeLimit\<close> (\<^verbatim>\<open>undefined\<close>) and a \<^verbatim>\<open>null\<close> deadline are \<open>None\<close>.
\<close>

record search_state =
  nodes :: int
  nodeLimit :: "int option"
  endTime :: "int option"

text \<open>
  \<^verbatim>\<open>Date.now()\<close> is an oracle: the \<open>t\<close>-th call of a run returns \<open>clk t\<close>, and the number
  of calls made so far is threaded through the search together with the position.
\<close>

type_synonym clock = "nat \<Rightarrow> int"

text \<open>\<^verbatim>\<open>++state.nodes >= state.nodeLimit\<close>, after the increment; false without a limit.\<close>

definition overBudget :: "search_state \<Rightarrow> bool" where
  "overBudget st = (case nodeLimit st of Some n \<Rightarrow> nodes st \<ge> n | None \<Rightarrow> False)"

text \<open>
  \<^verbatim>\<open>state.endTime && Date.now() >= state.endTime\<close>: the clock is read only when the
  deadline is truthy (neither \<^verbatim>\<open>null\<close> nor 0).
\<close>

definition timeUp :: "clock \<Rightarrow> search_state \<Rightarrow> nat \<Rightarrow> bool \<times> nat" where
  "timeUp clk st t =
     (case endTime st of
        None \<Rightarrow> (False, t)
      | Some e \<Rightarrow> if e = 0 then (False, t) else (clk t \<ge> e, Suc t))"

text \<open>
  \<^verbatim>\<open>minimaxSafe(game, depth, alpha, beta, maximizing, state)\<close>. The result is the returned
  score, the position object after the call, the budget object after the call and the
  number of clock reads. \<open>maxLoop\<close> and \<open>minLoop\<close> are the two \<^verbatim>\<open>for (const mv of moves)\<close>
  loops over the moves still to visit, with the depth of the children, the running
  \<^verbatim>\<open>alpha\<close>, \<^verbatim>\<open>beta\<close> and \<^verbatim>\<open>best\<close>. The depth is a ply count.
\<close>

function minimaxSafe ::
    "'g rules \<Rightarrow> clock \<Rightarrow> 'g \<Rightarrow> nat \<Rightarrow> score \<Rightarrow> score \<Rightarrow> bool \<Rightarrow> search_state \<Rightarrow> nat
      \<Rightarrow> score \<times> 'g \<times> search_state \<times> nat"
  and maxLoop ::
    "'g rules \<Rightarrow> clock \<Rightarrow> move list \<Rightarrow> nat \<Rightarrow> score \<Rightarrow> score \<Rightarrow> score \<Rightarrow> 'g \<Rightarrow> search_state \<Rightarrow> nat
      \<Rightarrow> score \<times> 'g \<times> search_state \<times> nat"
  and minLoop ::
    "'g rules \<Rightarrow> clock \<Rightarrow> move list \<Rightarrow> nat \<Rightarrow> score \<Rightarrow> score \<Rightarrow> score \<Rightarrow> 'g \<Rightarrow> search_state \<Rightarrow> nat
      \<Rightarrow> score \<times> 'g \<times> search_state \<times> nat"
where
  "minimaxSafe R clk g depth alpha beta maximizing st t =
     (let st1 = st\<lparr>nodes := nodes st + 1\<rparr> in
      if overBudget st1 then (Fin (evaluate R g), g, st1, t)
      else
        (case timeUp clk st1 t of
           (True, t1) \<Rightarrow> (Fin (evaluate R g), g, st1, t1)
         | (False, t1) \<Rightarrow>
             if depth = 0 \<or> isGameOver R g then (Fin (evaluate R g), g, st1, t1)
             else
               (let mvs = orderMovesSafe (safeMoves R g) in
                if length mvs = 0 then (Fin (evaluate R g), g, st1, t1)
                else if maximizing
                  then maxLoop R clk mvs (depth - 1) alpha beta NegInf g st1 t1
                  else minLoop R clk mvs (depth - 1) alpha beta PosInf g st1 t1)))"
| "maxLoop R clk [] d alpha beta best g st t = (best, g, st, t)"
| "maxLoop R clk (mv # mvs) d alpha beta best g st t =
     (case minimaxSafe R clk (move R g mv) d alpha beta False st t of
        (val, g2, st2, t2) \<Rightarrow>
          (let g3 = undo R g2;
               best' = (if score_lt best val then val else best);
               alpha' = (if score_lt alpha val then val else alpha)
           in if score_ge alpha' beta then (best', g3, st2, t2)
              else maxLoop R clk mvs d alpha' beta best' g3 st2 t2))"
| "minLoop R clk [] d alpha beta best g st t = (best, g, st, t)"
| "minLoop R clk (mv # mvs) d alpha beta best g st t =
     (case minimaxSafe R clk (move R g mv) d alpha beta True st t of
        (val, g2, st2, t2) \<Rightarrow>
          (let g3 = undo R g2;
               best' = (if score_lt val best then val else best);
               beta' = (if score_lt val beta then val else beta)
           in if score_ge alpha beta' then (best', g3, st2, t2)
              else minLoop R clk mvs d alpha beta' best' g3 st2 t2))"

  by pat_completeness auto
termination
  by (relation "inv_image (less_than <*lex*> less_than) (\<lambda>x. case x of
        Inl (R, clk, g, depth, rest) \<Rightarrow> (2 * depth, 0)
      | Inr (Inl (R, clk, mvs, d, rest)) \<Rightarrow> (2 * d + 1, length mvs)
      | Inr (Inr (R, clk, mvs, d, rest)) \<Rightarrow> (2 * d + 1, length mvs))") auto

section \<open>Root search\<close>

text \<open>
  A difficulty profile \<^verbatim>\<open>{ depth, nodeLimit, randomness, timeMs }\<close>. A field that the
  looked-up object does not have reads as \<^verbatim>\<open>undefined\<close>, which is \<open>None\<close>. The field
  names carry a prefix, since \<open>nodeLimit\<close> is a field of the budget object already.
\<close>

record profile =
  cfg_depth :: "nat option"
  cfg_nodeLimit :: "int option"
  cfg_randomness :: "real option"
  cfg_timeMs :: "int option"

definition beginner :: profile where
  "beginner = \<lparr>cfg_depth = Some 2, cfg_nodeLimit = Some 8000,
     cfg_randomness = Some (35 / 100), cfg_timeMs = Some 800\<rparr>"

definition moderate :: profile where
  "moderate = \<lparr>cfg_depth = Some 3, cfg_nodeLimit = Some 20000,
     cfg_randomness = Some (5 / 100), cfg_timeMs = Some 1500\<rparr>"

definition advanced :: profile where
  "advanced = \<lparr>cfg_depth = Some 4, cfg_nodeLimit = Some 60000,
     cfg_randomness = Some 0, cfg_timeMs = Some 3000\<rparr>"

text \<open>
  \<^verbatim>\<open>DIFFICULTY_CONFIG\<close> is an object literal, so \<^verbatim>\<open>DIFFICULTY_CONFIG[name]\<close> finds the
  three own keys and also the members every object inherits from \<^verbatim>\<open>Object.prototype\<close>.
  An inherited member is a function or an object: it is truthy and has none of the four
  profile fields. Any other name reads as \<^verbatim>\<open>undefined\<close>.
\<close>

definition objectPrototypeKeys :: "string list" where
  "objectPrototypeKeys =
     [''constructor'', ''hasOwnProperty'', ''isPrototypeOf'', ''propertyIsEnumerable'',
      ''toLocaleString'', ''toString'', ''valueOf'', ''__proto__'',
      ''__defineGetter__'', ''__defineSetter__'', ''__lookupGetter__'', ''__lookupSetter__'']"

definition inheritedMember :: profile where
  "inheritedMember = \<lparr>cfg_depth = None, cfg_nodeLimit = None,
     cfg_randomness = None, cfg_timeMs = None\<rparr>"

definition DIFFICULTY_CONFIG :: "string \<Rightarrow> profile option" where
  "DIFFICULTY_CONFIG name =
     (if name = ''beginner'' then Some beginner
      else if name = ''moderate'' then Some moderate
      else if name = ''advanced'' then Some advanced
      else if name \<in> set objectPrototypeKeys then Some inheritedMember
      else None)"

datatype error = TypeError

text \<open>
  \<^verbatim>\<open>chooseMoveWithRandomness(scoredMoves, randomness)\<close>; \<open>rnd\<close> is the value that
  \<^verbatim>\<open>Math.random()\<close> returns when it is called. \<^verbatim>\<open>scoredMoves[i].mv\<close> raises a TypeError
  when \<open>i\<close> is not an index of the list. \<^verbatim>\<open>Math.round(x)\<close> is \<open>\<lfloor>x + 1/2\<rfloor>\<close>.
\<close>

definition mvAt :: "(move \<times> score) list \<Rightarrow> int \<Rightarrow> error + move" where
  "mvAt scoredMoves i =
     (if 0 \<le> i \<and> i < int (length scoredMoves) then Inr (fst (scoredMoves ! nat i))
      else Inl TypeError)"

definition chooseMoveWithRandomness ::
    "(move \<times> score) list \<Rightarrow> real option \<Rightarrow> real \<Rightarrow> error + move" where
  "chooseMoveWithRandomness scoredMoves randomness rnd =
     (if randomness = None \<or> randomness = Some 0 \<or> length scoredMoves \<le> 1
      then mvAt scoredMoves 0
      else
        (let r = (case randomness of Some x \<Rightarrow> x | None \<Rightarrow> 0);
             maxIndex = max 1 \<lfloor>real (length scoredMoves) * r + 1 / 2\<rfloor> - 1;
             idx = \<lfloor>rnd * real_of_int (maxIndex + 1)\<rfloor>
         in mvAt scoredMoves idx))"

text \<open>
  The immediate mate detection loop of \<^verbatim>\<open>findBestMove\<close>: the move returned, if any, and
  the position object afterwards.
\<close>

fun mateLoop :: "'g rules \<Rightarrow> move list \<Rightarrow> 'g \<Rightarrow> move option \<times> 'g" where
  "mateLoop R [] g = (None, g)"
| "mateLoop R (mv # mvs) g =
     (let g1 = move R g mv
      in if isCheckmate R g1 then (Some mv, undo R g1)
         else mateLoop R mvs (undo R g1))"

text \<open>
  The inner loop over the root moves at depth \<open>d\<close>, with the running \<^verbatim>\<open>depthBest\<close> and
  \<^verbatim>\<open>depthBestEval\<close>; it stops when the deadline has passed.
\<close>

fun rootLoop ::
    "'g rules \<Rightarrow> clock \<Rightarrow> move list \<Rightarrow> nat \<Rightarrow> move \<Rightarrow> score \<Rightarrow> 'g \<Rightarrow> search_state \<Rightarrow> nat
      \<Rightarrow> move \<times> score \<times> 'g \<times> search_state \<times> nat" where
  "rootLoop R clk [] d depthBest depthBestEval g st t = (depthBest, depthBestEval, g, st, t)"
| "rootLoop R clk (mv # mvs) d depthBest depthBestEval g st t =
     (case minimaxSafe R clk (move R g mv) (d - 1) NegInf PosInf True st t of
        (val, g2, st2, t2) \<Rightarrow>
          (let g3 = undo R g2;
               depthBest' = (if score_lt val depthBestEval then mv else depthBest);
               depthBestEval' = (if score_lt val depthBestEval then val else depthBestEval)
           in case timeUp clk st2 t2 of
                (True, t3) \<Rightarrow> (depthBest', depthBestEval', g3, st2, t3)
              | (False, t3) \<Rightarrow> rootLoop R clk mvs d depthBest' depthBestEval' g3 st2 t3))"

text \<open>
  The iterative deepening loop over the depths still to run, with a fresh budget object
  for each depth.
\<close>

fun depthLoop ::
    "'g rules \<Rightarrow> clock \<Rightarrow> move list \<Rightarrow> int option \<Rightarrow> int option \<Rightarrow> nat list
      \<Rightarrow> move \<Rightarrow> score \<Rightarrow> 'g \<Rightarrow> nat \<Rightarrow> move \<times> score \<times> 'g \<times> nat" where
  "depthLoop R clk mvs limit deadline [] best bestEval g t = (best, bestEval, g, t)"
| "depthLoop R clk mvs limit deadline (d # ds) best bestEval g t =
     (let st = \<lparr>nodes = 0, nodeLimit = limit, endTime = deadline\<rparr>
      in case rootLoop R clk mvs d best bestEval g st t of
           (depthBest, depthBestEval, g1, st1, t1) \<Rightarrow>
             (case timeUp clk st1 t1 of
                (True, t2) \<Rightarrow> (depthBest, depthBestEval, g1, t2)
              | (False, t2) \<Rightarrow>
                  depthLoop R clk mvs limit deadline ds depthBest depthBestEval g1 t2))"

text \<open>
  \<^verbatim>\<open>cfg.timeMs ? Date.now() + cfg.timeMs : null\<close>: the deadline and the number of clock
  reads afterwards.
\<close>

definition deadlineOf :: "clock \<Rightarrow> profile \<Rightarrow> nat \<Rightarrow> int option \<times> nat" where
  "deadlineOf clk cfg t =
     (case cfg_timeMs cfg of
        None \<Rightarrow> (None, t)
      | Some ms \<Rightarrow> if ms = 0 then (None, t) else (Some (clk t + ms), Suc t))"

text \<open>
  The depths of \<^verbatim>\<open>for (let d = 1; d <= cfg.depth; d++)\<close>; the comparison with
  \<^verbatim>\<open>undefined\<close> is false, so there is none without a depth.
\<close>

definition depthsOf :: "profile \<Rightarrow> nat list" where
  "depthsOf cfg = (case cfg_depth cfg of Some n \<Rightarrow> [1..<Suc n] | None \<Rightarrow> [])"

text \<open>
  The part of \<^verbatim>\<open>findBestMove\<close> after the immediate mate detection: the deadline, the
  iterative deepening from \<^verbatim>\<open>best = moves[0]\<close> and \<^verbatim>\<open>bestEval = Infinity\<close>, and the final
  pick from the two-element list.
\<close>

definition deepen ::
    "'g rules \<Rightarrow> clock \<Rightarrow> real \<Rightarrow> move list \<Rightarrow> move \<Rightarrow> profile \<Rightarrow> 'g \<Rightarrow> nat
      \<Rightarrow> (error + move option) \<times> 'g \<times> nat" where
  "deepen R clk rnd mvs first cfg g t =
     (case deadlineOf clk cfg t of
        (deadline, t1) \<Rightarrow>
          (case depthLoop R clk mvs (cfg_nodeLimit cfg) deadline (depthsOf cfg)
                  first PosInf g t1 of
             (best, bestEval, g2, t2) \<Rightarrow>
               (case chooseMoveWithRandomness [(best, bestEval), (best, bestEval)]
                       (cfg_randomness cfg) rnd of
                  Inl e \<Rightarrow> (Inl e, g2, t2)
                | Inr mv \<Rightarrow> (Inr (Some mv), g2, t2))))"

text \<open>
  \<^verbatim>\<open>DIFFICULTY_CONFIG[difficulty] || DIFFICULTY_CONFIG.moderate\<close>, with the default
  parameter value: an omitted difficulty is \<open>None\<close>.
\<close>

definition profileOf :: "string option \<Rightarrow> profile" where
  "profileOf difficulty =
     (let name = (case difficulty of Some s \<Rightarrow> s | None \<Rightarrow> ''moderate'')
      in case DIFFICULTY_CONFIG name of Some c \<Rightarrow> c | None \<Rightarrow> moderate)"

text \<open>
  \<^verbatim>\<open>findBestMove(game, difficulty = "moderate")\<close>. The result is the returned move
  (\<open>None\<close> is \<^verbatim>\<open>null\<close>) or the error raised, the position object afterwards and the
  number of clock reads.
\<close>

definition findBestMove ::
    "'g rules \<Rightarrow> clock \<Rightarrow> real \<Rightarrow> 'g \<Rightarrow> string option \<Rightarrow> nat
      \<Rightarrow> (error + move option) \<times> 'g \<times> nat" where
  "findBestMove R clk rnd g difficulty t =
     (if isCheckmate R g \<or> isDraw R g then (Inr None, g, t)
      else
        (let cfg = profileOf difficulty;
             mvs = orderMovesSafe (safeMoves R g)
         in case mvs of
              [] \<Rightarrow> (Inr None, g, t)
            | first # _ \<Rightarrow>
                (case mateLoop R mvs g of
                   (Some mv, g1) \<Rightarrow> (Inr (Some mv), g1, t)
                 | (None, g1) \<Rightarrow> deepen R clk rnd mvs first cfg g1 t)))"

text \<open>The legacy export.\<close>

definition findBestMoveB ::
    "'g rules \<Rightarrow> clock \<Rightarrow> real \<Rightarrow> 'g \<Rightarrow> nat \<Rightarrow> (error + move option) \<times> 'g \<times> nat" where
  "findBestMoveB R clk rnd g t = findBestMove R clk rnd g (Some ''moderate'') t"

section \<open>A position object over an explicit game tree\<close>

text \<open>
  To run the engine on concrete positions, the rules parameter is instantiated with a
  position object that walks an explicit game tree. A tree node holds the answers of the
  queries at that position and, for each legal move, the position it leads to. The state
  of the object is the path from the current node back to the position it was created
  with: \<^verbatim>\<open>move\<close> pushes the child of a legal move, \<^verbatim>\<open>undo\<close> pops it, and neither does
  anything when there is no such child or no move to take back.
\<close>

datatype node =
  Node (n_mate: bool) (n_draw: bool) (n_over: bool) (n_turn: color)
       (n_grid: "piece option list list") (n_children: "(move \<times> node) list")

definition gridAt :: "piece option list list \<Rightarrow> nat \<Rightarrow> nat \<Rightarrow> piece option" where
  "gridAt grid r c =
     (if r < length grid \<and> c < length (grid ! r) then grid ! r ! c else None)"

definition treeGame :: "node list rules" where
  "treeGame =
     \<lparr>isCheckmate = (\<lambda>g. case g of [] \<Rightarrow> False | n # _ \<Rightarrow> n_mate n),
      isDraw = (\<lambda>g. case g of [] \<Rightarrow> False | n # _ \<Rightarrow> n_draw n),
      isGameOver = (\<lambda>g. case g of [] \<Rightarrow> False | n # _ \<Rightarrow> n_over n),
      isThreefoldRepetition = Some (\<lambda>g. False),
      inThreefoldRepetition = None,
      turn = (\<lambda>g. case g of [] \<Rightarrow> White | n # _ \<Rightarrow> n_turn n),
      board = (\<lambda>g. case g of [] \<Rightarrow> (\<lambda>r c. None) | n # _ \<Rightarrow> gridAt (n_grid n)),
      moves = (\<lambda>g. case g of [] \<Rightarrow> None | n # _ \<Rightarrow> Some (map fst (n_children n))),
      move = (\<lambda>g mv. case g of
                [] \<Rightarrow> []
              | n # h \<Rightarrow> (case map_of (n_children n) mv of
                            Some c \<Rightarrow> c # n # h
                          | None \<Rightarrow> n # h)),
      undo = (\<lambda>g. case g of n # m # h \<Rightarrow> m # h | _ \<Rightarrow> g)\<rparr>"

definition wh :: "piece_type \<Rightarrow> piece option" where
  "wh t = Some \<lparr>kind = t, side = White\<rparr>"

definition bl :: "piece_type \<Rightarrow> piece option" where
  "bl t = Some \<lparr>kind = t, side = Black\<rparr>"

definition emptyRow :: "piece option list" where
  "emptyRow = [None, None, None, None, None, None, None, None]"

definition quiet :: "string \<Rightarrow> string \<Rightarrow> piece_type \<Rightarrow> string \<Rightarrow> move" where
  "quiet f t p s =
     \<lparr>from_sq = f, to_sq = t, piece = Some p, captured = None, promotion = None, san = s\<rparr>"

definition capture :: "string \<Rightarrow> string \<Rightarrow> piece_type \<Rightarrow> piece_type \<Rightarrow> string \<Rightarrow> move" where
  "capture f t p x s =
     \<lparr>from_sq = f, to_sq = t, piece = Some p, captured = Some x, promotion = None, san = s\<rparr>"

text \<open>A node beyond the horizon of a tree: no answers of interest and no moves.\<close>

definition horizon :: "color \<Rightarrow> node" where
  "horizon c = Node False False False c [] []"

subsection \<open>The initial position\<close>

text \<open>
  The board of a new game, row 0 being the eighth rank, White to move, with the twenty
  legal first moves in the order the rules library lists them.
\<close>

definition startGrid :: "piece option list list" where
  "startGrid =
     [[bl Rook, bl Knight, bl Bishop, bl Queen, bl King, bl Bishop, bl Knight, bl Rook],
      [bl Pawn, bl Pawn, bl Pawn, bl Pawn, bl Pawn, bl Pawn, bl Pawn, bl Pawn],
      emptyRow, emptyRow, emptyRow, emptyRow,
      [wh Pawn, wh Pawn, wh Pawn, wh Pawn, wh Pawn, wh Pawn, wh Pawn, wh Pawn],
      [wh Rook, wh Knight, wh Bishop, wh Queen, wh King, wh Bishop, wh Knight, wh Rook]]"

definition startMoves :: "move list" where
  "startMoves =
     [quiet ''a2'' ''a3'' Pawn ''a3'', quiet ''a2'' ''a4'' Pawn ''a4'',
      quiet ''b2'' ''b3'' Pawn ''b3'', quiet ''b2'' ''b4'' Pawn ''b4'',
      quiet ''c2'' ''c3'' Pawn ''c3'', quiet ''c2'' ''c4'' Pawn ''c4'',
      quiet ''d2'' ''d3'' Pawn ''d3'', quiet ''d2'' ''d4'' Pawn ''d4'',
      quiet ''e2'' ''e3'' Pawn ''e3'', quiet ''e2'' ''e4'' Pawn ''e4'',
      quiet ''f2'' ''f3'' Pawn ''f3'', quiet ''f2'' ''f4'' Pawn ''f4'',
      quiet ''g2'' ''g3'' Pawn ''g3'', quiet ''g2'' ''g4'' Pawn ''g4'',
      quiet ''h2'' ''h3'' Pawn ''h3'', quiet ''h2'' ''h4'' Pawn ''h4'',
      quiet ''b1'' ''a3'' Knight ''Na3'', quiet ''b1'' ''c3'' Knight ''Nc3'',
      quiet ''g1'' ''f3'' Knight ''Nf3'', quiet ''g1'' ''h3'' Knight ''Nh3'']"

definition startNode :: node where
  "startNode =
     Node False False False White startGrid (map (\<lambda>mv. (mv, horizon Black)) startMoves)"

subsection \<open>Further positions\<close>

text \<open>
  The final position of the shortest game: after 1. f3 e5 2. g4 Qh4 White is to move
  and is checkmated.
\<close>

definition foolsMateGrid :: "piece option list list" where
  "foolsMateGrid =
     [[bl Rook, bl Knight, bl Bishop, None, bl King, bl Bishop, bl Knight, bl Rook],
      [bl Pawn, bl Pawn, bl Pawn, bl Pawn, None, bl Pawn, bl Pawn, bl Pawn],
      emptyRow,
      [None, None, None, None, bl Pawn, None, None, None],
      [None, None, None, None, None, None, wh Pawn, bl Queen],
      [None, None, None, None, None, wh Pawn, None, None],
      [wh Pawn, wh Pawn, wh Pawn, wh Pawn, wh Pawn, None, None, wh Pawn],
      [wh Rook, wh Knight, wh Bishop, wh Queen, wh King, wh Bishop, wh Knight, wh Rook]]"

definition foolsMate :: node where
  "foolsMate = Node True False True White foolsMateGrid []"

text \<open>The grid after the piece on one square has gone to another square.\<close>

definition gridMove ::
    "piece option list list \<Rightarrow> nat \<times> nat \<Rightarrow> nat \<times> nat \<Rightarrow> piece option list list" where
  "gridMove grid a b =
     (let p = gridAt grid (fst a) (snd a);
          cleared = grid[fst a := (grid ! fst a)[snd a := None]]
      in cleared[fst b := (cleared ! fst b)[snd b := p]])"

text \<open>
  A rook ending with Black to move: black king g3 and rook a8, white king h1. Black has
  twenty legal moves, and the rook move to a1 is the only one that mates. The tree
  lists the positions after Black's moves and stops there.
\<close>

definition rookEndGrid :: "piece option list list" where
  "rookEndGrid =
     [[bl Rook, None, None, None, None, None, None, None],
      emptyRow, emptyRow, emptyRow, emptyRow,
      [None, None, None, None, None, None, bl King, None],
      emptyRow,
      [None, None, None, None, None, None, None, wh King]]"

definition rookMate :: move where
  "rookMate = quiet ''a8'' ''a1'' Rook ''Ra1#''"

definition rookEndMoves :: "(move \<times> (nat \<times> nat) \<times> (nat \<times> nat)) list" where
  "rookEndMoves =
     [(quiet ''a8'' ''b8'' Rook ''Rb8'', (0, 0), (0, 1)),
      (quiet ''a8'' ''c8'' Rook ''Rc8'', (0, 0), (0, 2)),
      (quiet ''a8'' ''d8'' Rook ''Rd8'', (0, 0), (0, 3)),
      (quiet ''a8'' ''e8'' Rook ''Re8'', (0, 0), (0, 4)),
      (quiet ''a8'' ''f8'' Rook ''Rf8'', (0, 0), (0, 5)),
      (quiet ''a8'' ''g8'' Rook ''Rg8'', (0, 0), (0, 6)),
      (quiet ''a8'' ''h8'' Rook ''Rh8+'', (0, 0), (0, 7)),
      (quiet ''a8'' ''a7'' Rook ''Ra7'', (0, 0), (1, 0)),
      (quiet ''a8'' ''a6'' Rook ''Ra6'', (0, 0), (2, 0)),
      (quiet ''a8'' ''a5'' Rook ''Ra5'', (0, 0), (3, 0)),
      (quiet ''a8'' ''a4'' Rook ''Ra4'', (0, 0), (4, 0)),
      (quiet ''a8'' ''a3'' Rook ''Ra3'', (0, 0), (5, 0)),
      (quiet ''a8'' ''a2'' Rook ''Ra2'', (0, 0), (6, 0)),
      (rookMate, (0, 0), (7, 0)),
      (quiet ''g3'' ''f4'' King ''Kf4'', (5, 6), (4, 5)),
      (quiet ''g3'' ''g4'' King ''Kg4'', (5, 6), (4, 6)),
      (quiet ''g3'' ''h4'' King ''Kh4'', (5, 6), (4, 7)),
      (quiet ''g3'' ''h3'' King ''Kh3'', (5, 6), (5, 7)),
      (quiet ''g3'' ''f2'' King ''Kf2'', (5, 6), (6, 5)),
      (quiet ''g3'' ''f3'' King ''Kf3'', (5, 6), (5, 5))]"

definition rookEnd :: node where
  "rookEnd =
     Node False False False Black rookEndGrid
       (map (\<lambda>(mv, a, b).
               (mv, Node (mv = rookMate) False (mv = rookMate) White
                      (gridMove rookEndGrid a b) []))
          rookEndMoves)"

text \<open>
  A knight ending with Black to move: black king g7 and pawn a7, white king a1 and an
  unprotected knight on f6. Black has eight legal moves, none of them mates, and the
  king can take the knight. The tree lists the positions after Black's moves and stops
  there.
\<close>

definition knightEndGrid :: "piece option list list" where
  "knightEndGrid =
     [emptyRow,
      [bl Pawn, None, None, None, None, None, bl King, None],
      [None, None, None, None, None, wh Knight, None, None],
      emptyRow, emptyRow, emptyRow, emptyRow,
      [wh King, None, None, None, None, None, None, None]]"

definition pawnStep :: move where
  "pawnStep = quiet ''a7'' ''a6'' Pawn ''a6''"

definition kingTakes :: move where
  "kingTakes = capture ''g7'' ''f6'' King Knight ''Kxf6''"

definition knightEndMoves :: "(move \<times> (nat \<times> nat) \<times> (nat \<times> nat)) list" where
  "knightEndMoves =
     [(pawnStep, (1, 0), (2, 0)),
      (quiet ''a7'' ''a5'' Pawn ''a5'', (1, 0), (3, 0)),
      (quiet ''g7'' ''f8'' King ''Kf8'', (1, 6), (0, 5)),
      (quiet ''g7'' ''h8'' King ''Kh8'', (1, 6), (0, 7)),
      (quiet ''g7'' ''h6'' King ''Kh6'', (1, 6), (2, 7)),
      (quiet ''g7'' ''g6'' King ''Kg6'', (1, 6), (2, 6)),
      (kingTakes, (1, 6), (2, 5)),
      (quiet ''g7'' ''f7'' King ''Kf7'', (1, 6), (1, 5))]"

definition knightEnd :: node where
  "knightEnd =
     Node False False False Black knightEndGrid
       (map (\<lambda>(mv, a, b). (mv, Node False False False White (gridMove knightEndGrid a b) []))
          knightEndMoves)"

text \<open>A clock that stands still at 0, so that no deadline of a profile passes.\<close>

definition stillClock :: clock where
  "stillClock = (\<lambda>n. 0)"

section \<open>Notions of the specification\<close>

text \<open>
  The capture heuristic as the specification words it: ten times the material value of
  the captured piece (0 if none) minus the material value of the moving piece.
\<close>

definition captureHeuristic :: "move \<Rightarrow> int" where
  "captureHeuristic mv = 10 * getValue (captured mv) - getValue (piece mv)"

text \<open>
  The two parts of what \<^verbatim>\<open>evaluate\<close> adds for a square: the material value, added for
  White and subtracted for Black, and the rest, which comes from the positional table.
\<close>

definition materialTerm :: "piece option \<Rightarrow> nat \<Rightarrow> nat \<Rightarrow> int" where
  "materialTerm sq r c =
     (case sq of
        None \<Rightarrow> 0
      | Some p \<Rightarrow> if side p = White then MATERIAL (kind p) else - MATERIAL (kind p))"

definition tableTerm :: "piece option \<Rightarrow> nat \<Rightarrow> nat \<Rightarrow> int" where
  "tableTerm sq r c =
     (case sq of
        None \<Rightarrow> 0
      | Some p \<Rightarrow>
          (let table = PST (kind p);
               pst = (if side p = White then table ! r ! c else - (table ! (7 - r) ! c))
           in if side p = White then pst else - pst))"

definition materialBalance :: "(nat \<Rightarrow> nat \<Rightarrow> piece option) \<Rightarrow> int" where
  "materialBalance brd = sumSquares materialTerm brd"

definition tableBalance :: "(nat \<Rightarrow> nat \<Rightarrow> piece option) \<Rightarrow> int" where
  "tableBalance brd = sumSquares tableTerm brd"

text \<open>
  The moves of the knight ending in the order \<^verbatim>\<open>orderMovesSafe\<close> gives them: the pawn
  step first, then the rest.
\<close>

definition knightEndRest :: "move list" where
  "knightEndRest =
     [quiet ''a7'' ''a5'' Pawn ''a5'',
      kingTakes,
      quiet ''g7'' ''f8'' King ''Kf8'',
      quiet ''g7'' ''h8'' King ''Kh8'',
      quiet ''g7'' ''h6'' King ''Kh6'',
      quiet ''g7'' ''g6'' King ''Kg6'',
      quiet ''g7'' ''f7'' King ''Kf7'']"

section \<open>Properties of the move ordering\<close>

declare minimaxSafe.simps [simp del]

lemma mset_insert_cmp: "mset (insert_cmp cmp x xs) = add_mset x (mset xs)"
  by (induction xs) auto

lemma mset_sort_cmp: "mset (sort_cmp cmp xs) = mset xs"
  by (induction xs) (auto simp: mset_insert_cmp)

lemma set_insert_cmp: "set (insert_cmp cmp x xs) = insert x (set xs)"
  by (induction xs) auto

lemma set_sort_cmp: "set (sort_cmp cmp xs) = set xs"
  by (induction xs) (auto simp: set_insert_cmp)

text \<open>Sorting the scored pairs and dropping the scores is sorting the moves by score.\<close>

lemma insert_cmp_map:
  "insert_cmp cmp (f x) (map f xs) = map f (insert_cmp (\<lambda>a b. cmp (f a) (f b)) x xs)"
  by (induction xs) auto

lemma sort_cmp_map:
  "sort_cmp cmp (map f xs) = map f (sort_cmp (\<lambda>a b. cmp (f a) (f b)) xs)"
  by (induction xs) (auto simp: insert_cmp_map)

lemma orderMovesSafe_sort:
  "orderMovesSafe mvs = sort_cmp (\<lambda>a b. moveScore b - moveScore a) mvs"
  by (simp add: orderMovesSafe_def sort_cmp_map o_def)

lemma set_orderMovesSafe: "set (orderMovesSafe mvs) = set mvs"
  by (simp add: orderMovesSafe_sort set_sort_cmp)

lemma orderMovesSafe_Nil: "orderMovesSafe mvs = [] \<longleftrightarrow> mvs = []"
  using set_orderMovesSafe [of mvs] by (metis set_empty)

text \<open>With the comparator \<open>key b - key a\<close> the insertion keeps a descending list descending.\<close>

lemma sorted_insert_desc:
  "sorted_wrt (\<lambda>a b. key b \<le> key a) xs \<Longrightarrow>
   sorted_wrt (\<lambda>a b. key b \<le> key a) (insert_cmp (\<lambda>a b. key b - key a) x xs)"
  for key :: "'a \<Rightarrow> int"
  by (induction xs) (auto simp: set_insert_cmp)

lemma sorted_sort_desc:
  "sorted_wrt (\<lambda>a b. key b \<le> key a) (sort_cmp (\<lambda>a b. key b - key a) xs)"
  for key :: "'a \<Rightarrow> int"
  by (induction xs) (auto simp: sorted_insert_desc)

text \<open>
  An inserted element only passes elements of strictly larger key, so the elements of
  any one key keep their order.
\<close>

lemma filter_insert_desc:
  "filter (\<lambda>y. key y = k) (insert_cmp (\<lambda>a b. key b - key a) x xs)
     = (if key x = k then x # filter (\<lambda>y. key y = k) xs else filter (\<lambda>y. key y = k) xs)"
  for key :: "'a \<Rightarrow> int"
  by (induction xs) auto

lemma filter_sort_desc:
  "filter (\<lambda>y. key y = k) (sort_cmp (\<lambda>a b. key b - key a) xs) = filter (\<lambda>y. key y = k) xs"
  for key :: "'a \<Rightarrow> int"
  by (induction xs) (auto simp: filter_insert_desc)

lemma moveScore_heuristic: "moveScore mv = captureHeuristic mv"
  by (simp add: moveScore_def captureHeuristic_def getValue_def split: option.split)

text \<open>
  C6. For every list of moves, \<^verbatim>\<open>orderMovesSafe\<close> returns a permutation of its input (the
  same multiset) that is sorted non-increasing by the capture heuristic, ten times the
  material value of the captured piece (0 if none) minus the material value of the moving
  piece, and the sort is stable: for every score, the moves of that score come out in the
  order they came in.
\<close>

theorem orderMovesSafe_stable_sorted_permutation:
  "mset (orderMovesSafe mvs) = mset mvs
   \<and> sorted_wrt (\<lambda>a b. captureHeuristic a \<ge> captureHeuristic b) (orderMovesSafe mvs)
   \<and> (\<forall>k. filter (\<lambda>mv. captureHeuristic mv = k) (orderMovesSafe mvs)
            = filter (\<lambda>mv. captureHeuristic mv = k) mvs)"
proof -
  have eq: "orderMovesSafe mvs = sort_cmp (\<lambda>a b. captureHeuristic b - captureHeuristic a) mvs"
    by (simp add: orderMovesSafe_sort moveScore_heuristic)
  show ?thesis
    unfolding eq
    by (simp add: mset_sort_cmp sorted_sort_desc filter_sort_desc)
qed

section \<open>Properties of the evaluation\<close>

text \<open>
  C9. For every position in which the side to move is checkmated, \<^verbatim>\<open>evaluate\<close> returns
  the mate sentinel 100000 with the sign of the mated side: negative when White is to
  move, positive when Black is to move.
\<close>

theorem evaluate_checkmate:
  assumes "isCheckmate R g"
  shows "evaluate R g = (if turn R g = White then - 100000 else 100000)"
  using assms by (simp add: evaluate_def MATE_SCORE_def)

text \<open>C9 at the final position of the shortest game, where White is mated.\<close>

theorem evaluate_checkmate_witness:
  "isCheckmate treeGame [foolsMate] \<and> turn treeGame [foolsMate] = White
     \<and> evaluate treeGame [foolsMate] = - 100000"
proof -
  have h: "isCheckmate treeGame [foolsMate]"
    by (simp add: treeGame_def foolsMate_def)
  have w: "turn treeGame [foolsMate] = White"
    by (simp add: treeGame_def foolsMate_def)
  show ?thesis using h w evaluate_checkmate [OF h] by simp
qed

text \<open>The score of the board is the sum of its material part and its table part.\<close>

lemma foldl_add: "foldl (\<lambda>s x. s + f x) a xs = a + sum_list (map f xs)"
  for a :: int
  by (induction xs arbitrary: a) auto

lemma sumSquares_sum:
  "sumSquares f brd = (\<Sum>r\<leftarrow>[0..<8]. \<Sum>c\<leftarrow>[0..<8]. f (brd r c) r c)"
  unfolding sumSquares_def by (simp only: foldl_add)

lemma sumSquares_add:
  "sumSquares (\<lambda>sq r c. f sq r c + h sq r c) brd = sumSquares f brd + sumSquares h brd"
  by (simp only: sumSquares_sum sum_list_addf)

lemma squareScore_parts: "squareScore sq r c = materialTerm sq r c + tableTerm sq r c"
  by (simp add: squareScore_def materialTerm_def tableTerm_def Let_def split: option.split)

lemma boardScore_parts: "boardScore brd = materialBalance brd + tableBalance brd"
  unfolding boardScore_def materialBalance_def tableBalance_def
  by (simp only: sumSquares_add [symmetric] squareScore_parts [abs_def])

lemma startGrid_material: "materialBalance (gridAt startGrid) = 0"
  by code_simp

text \<open>
  C4, as stated, fails: on the initial position \<^verbatim>\<open>evaluate\<close> returns -150, not 0.
\<close>

theorem evaluate_start_nonzero:
  "evaluate treeGame [startNode] = - 150 \<and> evaluate treeGame [startNode] \<noteq> 0"
  by code_simp

text \<open>
  C4, amended. On the initial position, with White to move and twenty legal moves, the
  material terms cancel to 0 and the mobility term is 2 times 20, counted for the side to
  move only: \<^verbatim>\<open>evaluate\<close> returns the positional-table total of the board plus 40.
\<close>

theorem evaluate_start_position:
  assumes "board R g = gridAt startGrid" and "turn R g = White"
    and "length (safeMoves R g) = 20"
    and "\<not> isCheckmate R g" and "\<not> isDraw R g" and "\<not> isThreefold R g"
  shows "materialBalance (board R g) = 0
         \<and> evaluate R g = tableBalance (board R g) + 40"
  using assms by (simp add: evaluate_def boardScore_parts startGrid_material)

text \<open>C4, amended, on the position object of a new game.\<close>

theorem evaluate_start_position_witness:
  "board treeGame [startNode] = gridAt startGrid \<and> turn treeGame [startNode] = White
   \<and> length (safeMoves treeGame [startNode]) = 20
   \<and> \<not> isCheckmate treeGame [startNode] \<and> \<not> isDraw treeGame [startNode]
   \<and> \<not> isThreefold treeGame [startNode]
   \<and> materialBalance (board treeGame [startNode]) = 0
   \<and> evaluate treeGame [startNode] = tableBalance (board treeGame [startNode]) + 40"
proof -
  have b: "board treeGame [startNode] = gridAt startGrid"
    by (simp add: treeGame_def startNode_def)
  have w: "turn treeGame [startNode] = White"
    by (simp add: treeGame_def startNode_def)
  have n: "length (safeMoves treeGame [startNode]) = 20"
    by (simp add: safeMoves_def treeGame_def startNode_def startMoves_def)
  have m: "\<not> isCheckmate treeGame [startNode]" and d: "\<not> isDraw treeGame [startNode]"
    by (simp_all add: treeGame_def startNode_def)
  have r: "\<not> isThreefold treeGame [startNode]"
    by (simp add: isThreefold_def treeGame_def)
  show ?thesis
    using evaluate_start_position [OF b w n m d r] b w n m d r by simp
qed

section \<open>Properties of the search\<close>

text \<open>
  C7. For every position, budget object, alpha, beta and maximizing flag, the search
  called with depth 0 returns exactly \<^verbatim>\<open>evaluate(game)\<close>: each of the three early returns
  that a depth-0 call can take returns it.
\<close>

theorem minimaxSafe_depth_zero:
  "fst (minimaxSafe R clk g 0 alpha beta maximizing st t) = Fin (evaluate R g)"
  by (simp add: minimaxSafe.simps Let_def split: prod.split bool.split)

text \<open>
  C8. A call of \<^verbatim>\<open>minimaxSafe\<close> whose increment brings the node counter to the ceiling
  or beyond returns \<^verbatim>\<open>evaluate(game)\<close> at once: the counter has gone up by one, the
  position object is untouched, the clock has not been read, and no move has been
  explored. When the counter was below the ceiling on entry, it stands exactly at the
  ceiling at this return. So a node is only expanded while the counter is below the
  ceiling.
\<close>

theorem minimaxSafe_over_budget:
  assumes "nodeLimit st = Some n" and "n \<le> nodes st + 1"
  shows "minimaxSafe R clk g depth alpha beta maximizing st t
           = (Fin (evaluate R g), g, st\<lparr>nodes := nodes st + 1\<rparr>, t)
         \<and> (nodes st < n \<longrightarrow>
              nodes (fst (snd (snd (minimaxSafe R clk g depth alpha beta maximizing st t)))) = n)"
  using assms by (simp add: minimaxSafe.simps overBudget_def Let_def)

text \<open>C8 on the initial position with a ceiling of 5 and 4 nodes visited before.\<close>

theorem minimaxSafe_over_budget_witness:
  "minimaxSafe treeGame stillClock [startNode] 3 NegInf PosInf True
      \<lparr>nodes = 4, nodeLimit = Some 5, endTime = None\<rparr> 0
    = (Fin (evaluate treeGame [startNode]), [startNode],
       \<lparr>nodes = 5, nodeLimit = Some 5, endTime = None\<rparr>, 0)"
  using minimaxSafe_over_budget [of "\<lparr>nodes = 4, nodeLimit = Some 5, endTime = None\<rparr>" 5
      treeGame stillClock "[startNode]" 3 NegInf PosInf True 0]
  by simp

text \<open>
  When the rules collaborator takes back every legal move it has applied, the search
  and its two loops leave the position object as they found it. The loops run over
  legal moves of the position.
\<close>

lemma search_restores:
  assumes "\<forall>g. \<forall>mv\<in>set (safeMoves R g). undo R (move R g mv) = g"
  shows "fst (snd (minimaxSafe R clk g depth alpha beta maximizing st t)) = g"
    and "set mvs \<subseteq> set (safeMoves R g') \<Longrightarrow>
           fst (snd (maxLoop R clk mvs d alpha' beta' best g' st' t')) = g'"
    and "set mvs' \<subseteq> set (safeMoves R g'') \<Longrightarrow>
           fst (snd (minLoop R clk mvs' d' alpha'' beta'' best' g'' st'' t'')) = g''"
  using assms
proof (induction R clk g depth alpha beta maximizing st t
         and R clk mvs d alpha' beta' best g' st' t'
         and R clk mvs' d' alpha'' beta'' best' g'' st'' t''
       rule: minimaxSafe_maxLoop_minLoop.induct)
  case (1 R clk g depth alpha beta maximizing st t)
  then show ?case
    by (auto simp: minimaxSafe.simps Let_def set_orderMovesSafe split: prod.splits bool.splits)
next
  case (2 R clk d alpha beta best g st t)
  then show ?case by simp
next
  case (3 R clk mv mvs d alpha beta best g st t)
  then show ?case
    by (auto simp: Let_def split: prod.splits)
next
  case (4 R clk d alpha beta best g st t)
  then show ?case by simp
next
  case (5 R clk mv mvs d alpha beta best g st t)
  then show ?case
    by (auto simp: Let_def split: prod.splits)
qed

section \<open>Properties of the root search\<close>

lemma mateLoop_restores:
  assumes "\<forall>g. \<forall>mv\<in>set (safeMoves R g). undo R (move R g mv) = g"
    and "set mvs \<subseteq> set (safeMoves R g)"
  shows "snd (mateLoop R mvs g) = g"
  using assms by (induction mvs) (auto simp: Let_def)

lemma mateLoop_find:
  assumes "\<forall>g. \<forall>mv\<in>set (safeMoves R g). undo R (move R g mv) = g"
    and "set mvs \<subseteq> set (safeMoves R g)"
  shows "fst (mateLoop R mvs g) = find (\<lambda>mv. isCheckmate R (move R g mv)) mvs"
  using assms by (induction mvs) (auto simp: Let_def)

lemma rootLoop_restores:
  assumes "\<forall>g. \<forall>mv\<in>set (safeMoves R g). undo R (move R g mv) = g"
    and "set mvs \<subseteq> set (safeMoves R g)"
  shows "fst (snd (snd (rootLoop R clk mvs d depthBest depthBestEval g st t))) = g"
  using assms
proof (induction mvs arbitrary: depthBest depthBestEval st t)
  case Nil
  then show ?case by simp
next
  case (Cons mv mvs)
  have "fst (snd (minimaxSafe R clk (move R g mv) (d - 1) NegInf PosInf True st t)) = move R g mv"
    using Cons.prems(1) by (rule search_restores(1))
  moreover have "undo R (move R g mv) = g"
    using Cons.prems by simp
  ultimately show ?case
    using Cons by (auto simp: Let_def split: prod.splits bool.splits)
qed

lemma depthLoop_restores:
  assumes "\<forall>g. \<forall>mv\<in>set (safeMoves R g). undo R (move R g mv) = g"
    and "set mvs \<subseteq> set (safeMoves R g)"
  shows "fst (snd (snd (depthLoop R clk mvs limit deadline ds best bestEval g t))) = g"
  using assms
proof (induction ds arbitrary: best bestEval t)
  case Nil
  then show ?case by simp
next
  case (Cons d ds)
  have "fst (snd (snd (rootLoop R clk mvs d best bestEval g
           \<lparr>nodes = 0, nodeLimit = limit, endTime = deadline\<rparr> t))) = g"
    using Cons.prems by (rule rootLoop_restores)
  then show ?case
    using Cons by (auto simp: Let_def split: prod.splits bool.splits)
qed

lemma deepen_restores:
  assumes "\<forall>g. \<forall>mv\<in>set (safeMoves R g). undo R (move R g mv) = g"
    and "set mvs \<subseteq> set (safeMoves R g)"
  shows "fst (snd (deepen R clk rnd mvs first cfg g t)) = g"
proof -
  obtain deadline t1 where dl: "deadlineOf clk cfg t = (deadline, t1)"
    by (cases "deadlineOf clk cfg t")
  obtain best bestEval g2 t2 where
    lp: "depthLoop R clk mvs (cfg_nodeLimit cfg) deadline (depthsOf cfg) first PosInf g t1
           = (best, bestEval, g2, t2)"
    by (cases "depthLoop R clk mvs (cfg_nodeLimit cfg) deadline (depthsOf cfg) first PosInf g t1")
  have "g2 = g"
    using depthLoop_restores [OF assms,
        of clk "cfg_nodeLimit cfg" deadline "depthsOf cfg" first PosInf t1]
    by (simp add: lp)
  then show ?thesis
    by (simp add: deepen_def dl lp split: sum.split)
qed

lemma findBestMove_restores:
  assumes rt: "\<forall>g. \<forall>mv\<in>set (safeMoves R g). undo R (move R g mv) = g"
  shows "fst (snd (findBestMove R clk rnd g difficulty t)) = g"
proof (cases "isCheckmate R g \<or> isDraw R g")
  case True
  then show ?thesis by (simp add: findBestMove_def)
next
  case False
  let ?mvs = "orderMovesSafe (safeMoves R g)"
  have sub: "set ?mvs \<subseteq> set (safeMoves R g)"
    by (simp add: set_orderMovesSafe)
  show ?thesis
  proof (cases ?mvs)
    case Nil
    with False show ?thesis by (simp add: findBestMove_def)
  next
    case (Cons first rest)
    obtain r g1 where ml: "mateLoop R ?mvs g = (r, g1)"
      by (cases "mateLoop R ?mvs g")
    have g1: "g1 = g"
      using mateLoop_restores [OF rt sub] by (simp add: ml)
    have dp: "fst (snd (deepen R clk rnd ?mvs first (profileOf difficulty) g t)) = g"
      using rt sub by (rule deepen_restores)
    from False Cons ml g1 dp show ?thesis
      by (cases r) (simp_all add: findBestMove_def Let_def)
  qed
qed

text \<open>The position object over a game tree takes back every legal move it applies.\<close>

lemma treeGame_roundtrip:
  "\<forall>g. \<forall>mv\<in>set (safeMoves treeGame g). undo treeGame (move treeGame g mv) = g"
proof (intro allI ballI)
  fix g mv
  assume mem: "mv \<in> set (safeMoves treeGame g)"
  show "undo treeGame (move treeGame g mv) = g"
  proof (cases g)
    case Nil
    with mem show ?thesis by (simp add: safeMoves_def treeGame_def)
  next
    case (Cons n h)
    with mem have "mv \<in> fst ` set (n_children n)"
      by (simp add: safeMoves_def treeGame_def)
    then obtain c where "map_of (n_children n) mv = Some c"
      by (metis map_of_eq_None_iff not_Some_eq)
    with Cons show ?thesis by (simp add: treeGame_def)
  qed
qed

text \<open>
  C1. When the rules collaborator takes back every legal move it has applied (its
  \<^verbatim>\<open>undo\<close> after its \<^verbatim>\<open>move\<close> restores the whole state of the position object), then for
  every position, every call of \<^verbatim>\<open>minimaxSafe\<close>, with any depth, alpha, beta, maximizing
  flag, budget and clock, and every call of \<^verbatim>\<open>findBestMove\<close> leaves the position object
  in the state it had on entry, also when a loop breaks on a cutoff and when the budget
  or the deadline ends the search.
\<close>

theorem search_restores_position:
  assumes "\<forall>g. \<forall>mv\<in>set (safeMoves R g). undo R (move R g mv) = g"
  shows "fst (snd (minimaxSafe R clk g depth alpha beta maximizing st t)) = g
         \<and> fst (snd (findBestMove R clk rnd g difficulty t')) = g"
  using search_restores(1) [OF assms] findBestMove_restores [OF assms] by simp

text \<open>C1 on the knight ending, for a search of depth 2 and for the moderate profile.\<close>

theorem search_restores_position_witness:
  "fst (snd (minimaxSafe treeGame stillClock [knightEnd] 2 NegInf PosInf True
              \<lparr>nodes = 0, nodeLimit = Some 20000, endTime = Some 1500\<rparr> 0)) = [knightEnd]
   \<and> fst (snd (findBestMove treeGame stillClock 0 [knightEnd] (Some ''moderate'') 0))
       = [knightEnd]"
  using search_restores_position [OF treeGame_roundtrip] by simp

section \<open>The final pick\<close>

lemma mvAt_dup:
  assumes "0 \<le> i" and "i \<le> 1"
  shows "mvAt [(b, s), (b, s)] i = Inr b"
proof -
  from assms have "i = 0 \<or> i = 1" by arith
  then show ?thesis by (auto simp: mvAt_def)
qed

text \<open>
  On the list that holds one move twice, every index the pick can compute from a draw
  in the unit interval and a randomness fraction of at most 1 selects that move.
\<close>

lemma chooseMoveWithRandomness_dup:
  assumes "0 \<le> rnd" and "rnd < 1" and le: "\<And>x. randomness = Some x \<Longrightarrow> x \<le> 1"
  shows "chooseMoveWithRandomness [(b, s), (b, s)] randomness rnd = Inr b"
proof (cases "randomness = None \<or> randomness = Some 0")
  case True
  then show ?thesis
    by (auto simp: chooseMoveWithRandomness_def mvAt_def)
next
  case False
  then obtain x where x: "randomness = Some x" "x \<noteq> 0" by (cases randomness) auto
  define m where "m = max 1 \<lfloor>real (length [(b, s), (b, s)]) * x + 1 / 2\<rfloor> - 1"
  have "x \<le> 1" using le x by simp
  then have "\<lfloor>2 * x + 1 / 2\<rfloor> \<le> 2" by (simp add: floor_le_iff)
  then have m: "0 \<le> m" "m \<le> 1" by (auto simp: m_def)
  have lo: "0 \<le> \<lfloor>rnd * real_of_int (m + 1)\<rfloor>"
    using assms(1) m by simp
  have "rnd * real_of_int (m + 1) < real_of_int (m + 1)"
    using assms(2) m by simp
  then have "\<lfloor>rnd * real_of_int (m + 1)\<rfloor> < m + 1"
    by (rule floor_less_iff [THEN iffD2])
  then have hi: "\<lfloor>rnd * real_of_int (m + 1)\<rfloor> \<le> 1" using m by linarith
  have "chooseMoveWithRandomness [(b, s), (b, s)] randomness rnd
          = mvAt [(b, s), (b, s)] \<lfloor>rnd * real_of_int (m + 1)\<rfloor>"
    using x by (simp add: chooseMoveWithRandomness_def m_def Let_def)
  then show ?thesis using mvAt_dup [OF lo hi] by simp
qed

lemma profileOf_randomness:
  "cfg_randomness (profileOf difficulty) = Some x \<Longrightarrow> x \<le> 1"
  by (auto simp: profileOf_def DIFFICULTY_CONFIG_def beginner_def moderate_def advanced_def
        inheritedMember_def Let_def split: option.splits if_splits)

lemma deepen_pick:
  assumes "0 \<le> rnd" and "rnd < 1"
  shows "deepen R clk rnd mvs first (profileOf difficulty) g t
           = (case deadlineOf clk (profileOf difficulty) t of
                (deadline, t1) \<Rightarrow>
                  (case depthLoop R clk mvs (cfg_nodeLimit (profileOf difficulty)) deadline
                          (depthsOf (profileOf difficulty)) first PosInf g t1 of
                     (best, bestEval, g2, t2) \<Rightarrow> (Inr (Some best), g2, t2)))"
  using chooseMoveWithRandomness_dup [OF assms profileOf_randomness]
  by (simp add: deepen_def split: prod.split)

lemma deepen_returns_move:
  assumes "0 \<le> rnd" and "rnd < 1"
  shows "\<exists>mv. fst (deepen R clk rnd mvs first (profileOf difficulty) g t) = Inr (Some mv)"
  by (simp add: deepen_pick [OF assms] split: prod.split)

text \<open>
  C2. For every position, difficulty name and clock, two runs of \<^verbatim>\<open>findBestMove\<close> that
  differ only in the value \<^verbatim>\<open>Math.random()\<close> returns (any two values of the unit
  interval) return the same move and leave the same state: the pick is made from a list
  that holds the best move of the iterative deepening twice.
\<close>

theorem findBestMove_ignores_random_source:
  assumes "0 \<le> rnd1" and "rnd1 < 1" and "0 \<le> rnd2" and "rnd2 < 1"
  shows "findBestMove R clk rnd1 g difficulty t = findBestMove R clk rnd2 g difficulty t"
  by (simp add: findBestMove_def Let_def deepen_pick [OF assms(1,2)] deepen_pick [OF assms(3,4)]
        split: list.split prod.split option.split)

text \<open>C2 on the knight ending at the beginner tier, for the draws 0 and 9/10.\<close>

theorem findBestMove_ignores_random_source_witness:
  "findBestMove treeGame stillClock 0 [knightEnd] (Some ''beginner'') 0
     = findBestMove treeGame stillClock (9 / 10) [knightEnd] (Some ''beginner'') 0"
  using findBestMove_ignores_random_source [of 0 "9 / 10"] by simp

section \<open>The result of the root search\<close>

text \<open>
  C3. When the rules collaborator reports no legal move only in a checkmate or a draw
  (a stalemate is a draw), \<^verbatim>\<open>findBestMove\<close> returns \<^verbatim>\<open>null\<close> if and only if the position
  on entry is checkmate or a draw, and in every other case it returns a move.
\<close>

theorem findBestMove_null_iff_terminal:
  assumes "safeMoves R g = [] \<longrightarrow> isCheckmate R g \<or> isDraw R g"
    and "0 \<le> rnd" and "rnd < 1"
  shows "(fst (findBestMove R clk rnd g difficulty t) = Inr None)
           = (isCheckmate R g \<or> isDraw R g)
         \<and> (\<not> (isCheckmate R g \<or> isDraw R g) \<longrightarrow>
              (\<exists>mv. fst (findBestMove R clk rnd g difficulty t) = Inr (Some mv)))"
proof (cases "isCheckmate R g \<or> isDraw R g")
  case True
  then show ?thesis by (simp add: findBestMove_def)
next
  case False
  let ?mvs = "orderMovesSafe (safeMoves R g)"
  from False assms(1) have "?mvs \<noteq> []" by (simp add: orderMovesSafe_Nil)
  then obtain first rest where mvs: "?mvs = first # rest" by (cases ?mvs) auto
  obtain r g1 where ml: "mateLoop R ?mvs g = (r, g1)" by (cases "mateLoop R ?mvs g")
  have "\<exists>mv. fst (findBestMove R clk rnd g difficulty t) = Inr (Some mv)"
  proof (cases r)
    case None
    with False mvs ml deepen_returns_move [OF assms(2,3), of R clk ?mvs first difficulty g1 t]
    show ?thesis by (simp add: findBestMove_def Let_def)
  next
    case (Some mv)
    with False mvs ml show ?thesis by (simp add: findBestMove_def Let_def)
  qed
  with False show ?thesis by auto
qed

lemma knightEnd_open:
  "\<not> isCheckmate treeGame [knightEnd]" "\<not> isDraw treeGame [knightEnd]"
  by (simp_all add: treeGame_def knightEnd_def)

lemma knightEnd_order:
  "orderMovesSafe (safeMoves treeGame [knightEnd]) = pawnStep # knightEndRest"
  by code_simp

text \<open>
  C3 on the knight ending, where a move is returned, and on the final position of the
  shortest game, where \<^verbatim>\<open>null\<close> is returned.
\<close>

theorem findBestMove_null_iff_terminal_witness:
  "fst (findBestMove treeGame stillClock 0 [knightEnd] (Some ''advanced'') 0) \<noteq> Inr None
   \<and> fst (findBestMove treeGame stillClock 0 [foolsMate] (Some ''advanced'') 0) = Inr None"
proof
  have "safeMoves treeGame [knightEnd] \<noteq> []"
    using knightEnd_order orderMovesSafe_Nil [of "safeMoves treeGame [knightEnd]"] by simp
  then have k: "safeMoves treeGame [knightEnd] = [] \<longrightarrow>
             isCheckmate treeGame [knightEnd] \<or> isDraw treeGame [knightEnd]"
    by blast
  have "(fst (findBestMove treeGame stillClock 0 [knightEnd] (Some ''advanced'') 0) = Inr None)
          = (isCheckmate treeGame [knightEnd] \<or> isDraw treeGame [knightEnd])"
    by (rule findBestMove_null_iff_terminal [OF k, THEN conjunct1]) simp_all
  with knightEnd_open
  show "fst (findBestMove treeGame stillClock 0 [knightEnd] (Some ''advanced'') 0) \<noteq> Inr None"
    by blast
next
  have m: "isCheckmate treeGame [foolsMate]"
    by (simp add: treeGame_def foolsMate_def)
  then have f: "safeMoves treeGame [foolsMate] = [] \<longrightarrow>
             isCheckmate treeGame [foolsMate] \<or> isDraw treeGame [foolsMate]"
    by blast
  have "(fst (findBestMove treeGame stillClock 0 [foolsMate] (Some ''advanced'') 0) = Inr None)
          = (isCheckmate treeGame [foolsMate] \<or> isDraw treeGame [foolsMate])"
    by (rule findBestMove_null_iff_terminal [OF f, THEN conjunct1]) simp_all
  with m
  show "fst (findBestMove treeGame stillClock 0 [foolsMate] (Some ''advanced'') 0) = Inr None"
    by blast
qed

text \<open>
  C5. When the rules collaborator takes back every legal move it has applied, then for
  every position that is neither checkmate nor a draw and has a legal move that mates at
  once, \<^verbatim>\<open>findBestMove\<close> returns such a move, the first one of the ordered root moves,
  whatever the difficulty name, the clock and the random draw: the move is returned
  before the clock is read and before any search is run, and the position object is as
  on entry.
\<close>

theorem findBestMove_mate_in_one:
  assumes rt: "\<forall>g. \<forall>mv\<in>set (safeMoves R g). undo R (move R g mv) = g"
    and "\<not> isCheckmate R g" and "\<not> isDraw R g"
    and ex: "\<exists>mv\<in>set (safeMoves R g). isCheckmate R (move R g mv)"
  shows "\<exists>mv. findBestMove R clk rnd g difficulty t = (Inr (Some mv), g, t)
              \<and> mv \<in> set (safeMoves R g) \<and> isCheckmate R (move R g mv)
              \<and> find (\<lambda>m. isCheckmate R (move R g m)) (orderMovesSafe (safeMoves R g))
                  = Some mv"
proof -
  let ?mvs = "orderMovesSafe (safeMoves R g)"
  let ?P = "\<lambda>m. isCheckmate R (move R g m)"
  have sub: "set ?mvs \<subseteq> set (safeMoves R g)" by (simp add: set_orderMovesSafe)
  from ex have "\<exists>m\<in>set ?mvs. ?P m" by (simp add: set_orderMovesSafe)
  then obtain mv where f: "find ?P ?mvs = Some mv"
    by (cases "find ?P ?mvs") (auto simp: find_None_iff)
  then have p: "?P mv" and mem: "mv \<in> set ?mvs"
    by (auto simp: find_Some_iff)
  from mem obtain first rest where mvs: "?mvs = first # rest" by (cases ?mvs) auto
  have "mateLoop R ?mvs g = (Some mv, g)"
    using mateLoop_find [OF rt sub] mateLoop_restores [OF rt sub] f
    by (metis prod.collapse)
  with assms(2,3) mvs have "findBestMove R clk rnd g difficulty t = (Inr (Some mv), g, t)"
    by (simp add: findBestMove_def Let_def)
  with f p mem show ?thesis by (auto simp: set_orderMovesSafe)
qed

lemma rookEnd_open:
  "\<not> isCheckmate treeGame [rookEnd]" "\<not> isDraw treeGame [rookEnd]"
  by (simp_all add: treeGame_def rookEnd_def)

lemma rookEnd_mate:
  "rookMate \<in> set (safeMoves treeGame [rookEnd])"
  "isCheckmate treeGame (move treeGame [rookEnd] rookMate)"
  by code_simp+

lemma rookEnd_first_mate:
  "find (\<lambda>m. isCheckmate treeGame (move treeGame [rookEnd] m))
     (orderMovesSafe (safeMoves treeGame [rookEnd])) = Some rookMate"
  by code_simp

text \<open>C5 on the rook ending at the beginner tier: the rook move to a1 is returned.\<close>

theorem findBestMove_mate_in_one_witness:
  "findBestMove treeGame stillClock 0 [rookEnd] (Some ''beginner'') 0
     = (Inr (Some rookMate), [rookEnd], 0)"
proof -
  have ex: "\<exists>mv\<in>set (safeMoves treeGame [rookEnd]).
              isCheckmate treeGame (move treeGame [rookEnd] mv)"
    using rookEnd_mate by blast
  show ?thesis
    using findBestMove_mate_in_one [OF treeGame_roundtrip rookEnd_open ex,
        of stillClock 0 "Some ''beginner''" 0]
    by (auto simp: rookEnd_first_mate)
qed

section \<open>The difficulty name\<close>

text \<open>
  The legacy export is \<^verbatim>\<open>findBestMove\<close> with the name "moderate", an omitted name is
  "moderate", and so is every name that \<^verbatim>\<open>DIFFICULTY_CONFIG[name]\<close> does not find.
\<close>

lemma findBestMoveB_moderate:
  "findBestMoveB R clk rnd g t = findBestMove R clk rnd g (Some ''moderate'') t"
  by (simp add: findBestMoveB_def)

lemma findBestMove_default:
  "findBestMove R clk rnd g None t = findBestMove R clk rnd g (Some ''moderate'') t"
  by (simp add: findBestMove_def profileOf_def)

lemma findBestMove_unknown_name:
  assumes "DIFFICULTY_CONFIG name = None"
  shows "findBestMove R clk rnd g (Some name) t
           = findBestMove R clk rnd g (Some ''moderate'') t"
  using assms by (simp add: findBestMove_def profileOf_def DIFFICULTY_CONFIG_def)

text \<open>Past the mate detection, \<^verbatim>\<open>findBestMove\<close> is the iterative deepening.\<close>

lemma findBestMove_search:
  assumes "\<not> isCheckmate R g" and "\<not> isDraw R g"
    and "orderMovesSafe (safeMoves R g) = first # rest"
    and "mateLoop R (first # rest) g = (None, g1)"
  shows "findBestMove R clk rnd g difficulty t
           = deepen R clk rnd (first # rest) first (profileOf difficulty) g1 t"
  using assms by (simp add: findBestMove_def)

lemma knightEnd_no_mate:
  "mateLoop treeGame (pawnStep # knightEndRest) [knightEnd] = (None, [knightEnd])"
  by code_simp

lemma knightEnd_search:
  "depthLoop treeGame stillClock (pawnStep # knightEndRest) (Some 20000) (Some 1500) [1, 2, 3]
     pawnStep PosInf [knightEnd] 1 = (kingTakes, Fin (- 95), [knightEnd], 52)"
  by code_simp

lemma profileOf_moderate: "profileOf (Some ''moderate'') = moderate"
  by (simp add: profileOf_def DIFFICULTY_CONFIG_def)

lemma profileOf_constructor: "profileOf (Some ''constructor'') = inheritedMember"
  by (simp add: profileOf_def DIFFICULTY_CONFIG_def objectPrototypeKeys_def)

lemma moderate_fields:
  "deadlineOf stillClock moderate 0 = (Some 1500, 1)"
  "cfg_nodeLimit moderate = Some 20000"
  "cfg_randomness moderate = Some (5 / 100)"
  "depthsOf moderate = [1, 2, 3]"
     apply (simp_all add: deadlineOf_def depthsOf_def moderate_def stillClock_def)
  apply code_simp
  done

lemma moderate_pick:
  "chooseMoveWithRandomness [(b, s), (b, s)] (Some (5 / 100)) 0 = Inr b"
  by (rule chooseMoveWithRandomness_dup) simp_all

text \<open>
  On the knight ending the moderate profile searches three depths, reads the clock 52
  times and returns the capture of the knight.
\<close>

lemma knightEnd_moderate:
  "findBestMove treeGame stillClock 0 [knightEnd] (Some ''moderate'') 0
     = (Inr (Some kingTakes), [knightEnd], 52)"
  by (simp only: findBestMove_search [OF knightEnd_open knightEnd_order knightEnd_no_mate]
        profileOf_moderate deepen_def moderate_fields prod.case knightEnd_search
        moderate_pick sum.case)

lemma inherited_fields:
  "deadlineOf clk inheritedMember t = (None, t)"
  "cfg_nodeLimit inheritedMember = None"
  "cfg_randomness inheritedMember = None"
  "depthsOf inheritedMember = []"
  by (simp_all add: deadlineOf_def depthsOf_def inheritedMember_def)

lemma inherited_pick:
  "chooseMoveWithRandomness [(b, s), (b, s)] None rnd = Inr b"
  by (simp add: chooseMoveWithRandomness_def mvAt_def)

text \<open>
  With the name "constructor" the looked-up object is an inherited member: there is no
  deadline, the depth loop does not run, and the first ordered move is returned.
\<close>

lemma knightEnd_constructor:
  "findBestMove treeGame stillClock 0 [knightEnd] (Some ''constructor'') 0
     = (Inr (Some pawnStep), [knightEnd], 0)"
  by (simp only: findBestMove_search [OF knightEnd_open knightEnd_order knightEnd_no_mate]
        profileOf_constructor deepen_def inherited_fields prod.case depthLoop.simps
        inherited_pick sum.case)

text \<open>
  The same holds on every position and for every inherited name: past the mate
  detection the first ordered move is returned, and the clock is not read.
\<close>

lemma profileOf_inherited:
  assumes "name \<in> set objectPrototypeKeys"
  shows "profileOf (Some name) = inheritedMember"
  using assms by (auto simp: profileOf_def DIFFICULTY_CONFIG_def objectPrototypeKeys_def)

lemma findBestMove_inherited_name:
  assumes "name \<in> set objectPrototypeKeys"
    and "\<not> isCheckmate R g" and "\<not> isDraw R g"
    and "orderMovesSafe (safeMoves R g) = first # rest"
    and "mateLoop R (first # rest) g = (None, g1)"
  shows "findBestMove R clk rnd g (Some name) t = (Inr (Some first), g1, t)"
  by (simp only: findBestMove_search [OF assms(2-5)] profileOf_inherited [OF assms(1)]
        deepen_def inherited_fields prod.case depthLoop.simps inherited_pick sum.case)

text \<open>
  C10. The claim that an unrecognized difficulty name uses the moderate profile does
  not hold for a name that every object inherits, such as "constructor": on the knight
  ending \<^verbatim>\<open>findBestMove\<close> then returns the pawn step, the first ordered move, where the
  moderate profile returns the capture of the knight.
\<close>

theorem findBestMove_inherited_name_differs:
  "fst (findBestMove treeGame stillClock 0 [knightEnd] (Some ''constructor'') 0)
     = Inr (Some pawnStep)
   \<and> fst (findBestMove treeGame stillClock 0 [knightEnd] (Some ''moderate'') 0)
     = Inr (Some kingTakes)
   \<and> pawnStep \<noteq> kingTakes"
  by (simp add: knightEnd_constructor knightEnd_moderate pawnStep_def kingTakes_def
        quiet_def capture_def)

end
